theory Spec2Isabelle
  imports Main "HOL-Library.Sublist"
begin

section \<open>JavaScript values used by the network module\<close>

text \<open>
  \<open>process.env\<close> maps a variable name to a string, or to \<open>undefined\<close> (here \<open>None\<close>)
  when the variable is not set.
\<close>

type_synonym env = "string \<Rightarrow> string option"

text \<open>
  Truthiness of a \<open>string | undefined\<close>: \<open>undefined\<close> and the empty string are falsy.
\<close>

fun truthy :: "string option \<Rightarrow> bool" where
  "truthy None = False"
| "truthy (Some s) = (s \<noteq> [])"

text \<open>The operator \<open>a || b\<close>: the left operand when it is truthy, the right one otherwise.\<close>

definition js_or :: "string option \<Rightarrow> string option \<Rightarrow> string option" where
  "js_or a b = (if truthy a then a else b)"

text \<open>The operator \<open>a ?? b\<close>: the left operand unless it is \<open>undefined\<close>.\<close>

definition nullish :: "string option \<Rightarrow> string option \<Rightarrow> string option" where
  "nullish a b = (case a of None \<Rightarrow> b | Some v \<Rightarrow> Some v)"

text \<open>
  The value bound inside \<open>if (v) { ... }\<close>: the string itself when the test succeeds.
\<close>

definition truthy_string :: "string option \<Rightarrow> string option" where
  "truthy_string v = (if truthy v then v else None)"

text \<open>
  \<open>s.replace(pat, rep)\<close> with a string pattern: only the first occurrence is replaced.
\<close>

fun str_replace :: "string \<Rightarrow> string \<Rightarrow> string \<Rightarrow> string" where
  "str_replace pat rep [] = (if pat = [] then rep else [])"
| "str_replace pat rep (c # cs) =
     (if prefix pat (c # cs) then rep @ drop (length pat) (c # cs)
      else c # str_replace pat rep cs)"

text \<open>
  Exceptions are values. A block of JavaScript is a function from the state to a
  completion (\<open>Inl\<close> a thrown value, \<open>Inr\<close> a normal result) and the state it leaves.
\<close>

datatype error = TypeError string | InvalidArgumentError string

type_synonym ('e, 'a, 's) js = "'s \<Rightarrow> ('e + 'a) \<times> 's"

text \<open>\<open>try { body } catch (e) { handler }\<close>\<close>

definition try_catch :: "('e, 'a, 's) js \<Rightarrow> ('e \<Rightarrow> ('e, 'a, 's) js) \<Rightarrow> ('e, 'a, 's) js" where
  "try_catch body handler s =
     (case body s of
        (Inl e, s') \<Rightarrow> handler e s'
      | (Inr a, s') \<Rightarrow> (Inr a, s'))"

section \<open>The platform: URL and the undici constructors\<close>

text \<open>
  The fields of a \<open>URL\<close> object that the module reads. \<open>protocol\<close> is the scheme
  followed by a colon.
\<close>

record url =
  protocol :: string
  host :: string

datatype dispatcher = ProxyAgent string | EnvHttpProxyAgent

text \<open>
  The module calls three constructors that it does not define: \<open>new URL(s)\<close>, which
  throws on a string that is not a URL, \<open>new ProxyAgent({uri})\<close> and
  \<open>new EnvHttpProxyAgent()\<close>. The first two are parameters of the model: \<open>newURL\<close>
  gives the parsed URL or the thrown error; \<open>newProxyAgent\<close> gives \<open>Some e\<close> when the
  constructor throws \<open>e\<close> on that URI and \<open>None\<close> when it returns the agent.
\<close>

record platform =
  newURL :: "string \<Rightarrow> error + url"
  newProxyAgent :: "string \<Rightarrow> error option"

text \<open>
  \<open>new EnvHttpProxyAgent()\<close> takes no argument from the module and reads the
  environment itself, as undici's constructor does
  (\<open>lib/dispatcher/env-http-proxy-agent.js\<close>):
  \<^verbatim>\<open>
  const HTTP_PROXY = httpProxy ?? process.env.http_proxy ?? process.env.HTTP_PROXY
  if (HTTP_PROXY) { this[kHttpProxyAgent] = new ProxyAgent({ ...agentOpts, uri: HTTP_PROXY }) }
  const HTTPS_PROXY = httpsProxy ?? process.env.https_proxy ?? process.env.HTTPS_PROXY
  if (HTTPS_PROXY) { this[kHttpsProxyAgent] = new ProxyAgent({ ...agentOpts, uri: HTTPS_PROXY }) }
  this.#parseNoProxy()
  \<close>
  It builds a \<open>ProxyAgent\<close> for the HTTP pair and then for the HTTPS pair, and throws
  what the first failing one throws. It reads \<open>no_proxy\<close> and \<open>NO_PROXY\<close> too, but
  only splits their text, which cannot throw. The result is \<open>Some e\<close> when the
  constructor throws \<open>e\<close> and \<open>None\<close> when it returns the agent.
\<close>

definition newEnvHttpProxyAgent :: "platform \<Rightarrow> env \<Rightarrow> error option" where
  "newEnvHttpProxyAgent P env =
     (let HTTP_PROXY = nullish (env ''http_proxy'') (env ''HTTP_PROXY'')
      in case (case truthy_string HTTP_PROXY of
                 Some uri \<Rightarrow> newProxyAgent P uri
               | None \<Rightarrow> None) of
           Some e \<Rightarrow> Some e
         | None \<Rightarrow>
             (let HTTPS_PROXY = nullish (env ''https_proxy'') (env ''HTTPS_PROXY'')
              in case truthy_string HTTPS_PROXY of
                   Some uri \<Rightarrow> newProxyAgent P uri
                 | None \<Rightarrow> None))"

section \<open>Module state\<close>

text \<open>
  The three functions a base transport can be: the host's \<open>globalThis.fetch\<close>, undici's
  \<open>fetch\<close> as imported, and the closure that calls undici's \<open>fetch\<close> with
  \<open>dispatcher: configuredDispatcher\<close>.
\<close>

datatype fetch_fn = GlobalThisFetch | UndiciFetch | DispatcherFetch

datatype console_event = ConsoleLog string | ConsoleWarn string "error option"

text \<open>
  The module variables \<open>mockFetch\<close> and \<open>configuredDispatcher\<close>, the variable
  \<open>baseFetch\<close> that the exported closure captures, and the console. \<open>mockFetchWrites\<close>
  is a history of the assignments to \<open>mockFetch\<close>, kept to count them.
\<close>

record 'm net =
  mockFetch :: "'m option"
  configuredDispatcher :: "dispatcher option"
  baseFetch :: fetch_fn
  console :: "console_event list"
  mockFetchWrites :: "'m option list"

definition module_load :: "'m net" where
  "module_load =
     \<lparr>mockFetch = None, configuredDispatcher = None, baseFetch = GlobalThisFetch,
      console = [], mockFetchWrites = []\<rparr>"

definition console_log :: "string \<Rightarrow> 'm net \<Rightarrow> 'm net" where
  "console_log msg s = s\<lparr>console := console s @ [ConsoleLog msg]\<rparr>"

definition console_warn :: "string \<Rightarrow> error option \<Rightarrow> 'm net \<Rightarrow> 'm net" where
  "console_warn msg e s = s\<lparr>console := console s @ [ConsoleWarn msg e]\<rparr>"

definition set_mockFetch :: "'m option \<Rightarrow> 'm net \<Rightarrow> 'm net" where
  "set_mockFetch v s = s\<lparr>mockFetch := v, mockFetchWrites := mockFetchWrites s @ [v]\<rparr>"

section \<open>Initialisation of the exported fetch\<close>

text \<open>
  The first three lines of the \<open>try\<close> block, which \<open>getAxiosSettings\<close> repeats:
  \<open>httpsProxy || httpProxy\<close> over the two pairs of variables.
\<close>

definition resolveProxy :: "env \<Rightarrow> string option" where
  "resolveProxy env =
     (let httpsProxy = js_or (env ''https_proxy'') (env ''HTTPS_PROXY'');
          httpProxy = js_or (env ''http_proxy'') (env ''HTTP_PROXY'')
      in js_or httpsProxy httpProxy)"

definition is_standalone :: "env \<Rightarrow> bool" where
  "is_standalone env = truthy (env ''IS_STANDALONE'')"

text \<open>
  The \<open>try\<close> block of the initialiser. An exception leaves the state as it was when
  it was thrown: a line logged before a constructor throws stays logged.
\<close>

definition fetch_try :: "platform \<Rightarrow> env \<Rightarrow> (error, unit, 'm net) js" where
  "fetch_try P env s =
     (case truthy_string (resolveProxy env) of
        Some proxy \<Rightarrow>
          (case newURL P proxy of
             Inl e \<Rightarrow> (Inl e, s)
           | Inr proxyUrl \<Rightarrow>
               (let protocol = str_replace '':'' [] (url.protocol proxyUrl) in
                if protocol = ''socks'' \<or> protocol = ''socks4'' \<or> protocol = ''socks5'' then
                  (let s1 = console_log
                              (''[net] Configuring SOCKS proxy: '' @ protocol @ ''://'' @ host proxyUrl) s
                   in case newProxyAgent P proxy of
                        Some e \<Rightarrow> (Inl e, s1)
                      | None \<Rightarrow>
                          (Inr (), s1\<lparr>configuredDispatcher := Some (ProxyAgent proxy),
                                       baseFetch := DispatcherFetch\<rparr>))
                else if protocol = ''http'' \<or> protocol = ''https'' then
                  (if is_standalone env then
                     (let s1 = console_log
                                 ''[net] Configuring HTTP/HTTPS proxy from environment variables'' s
                      in case newEnvHttpProxyAgent P env of
                           Some e \<Rightarrow> (Inl e, s1)
                         | None \<Rightarrow>
                             (Inr (), s1\<lparr>configuredDispatcher := Some EnvHttpProxyAgent,
                                          baseFetch := DispatcherFetch\<rparr>))
                   else (Inr (), s))
                else
                  (Inr (), console_warn
                             (''[net] Unsupported proxy protocol: '' @ protocol @ '', using default fetch'')
                             None s)))
      | None \<Rightarrow>
          (if is_standalone env then (Inr (), s\<lparr>baseFetch := UndiciFetch\<rparr>)
           else (Inr (), s)))"

definition fetch_catch :: "env \<Rightarrow> error \<Rightarrow> (error, unit, 'm net) js" where
  "fetch_catch env e s =
     (let s1 = console_warn ''Failed to configure proxy agent, using default fetch:'' (Some e) s
      in if is_standalone env then (Inr (), s1\<lparr>baseFetch := UndiciFetch\<rparr>)
         else (Inr (), s1))"

text \<open>
  The immediately invoked initialiser: \<open>let baseFetch = globalThis.fetch\<close>, then the
  \<open>try\<close>/\<open>catch\<close>. The closure it returns is \<open>fetch\<close> below.
\<close>

definition fetch_init :: "platform \<Rightarrow> env \<Rightarrow> (error, unit, 'm net) js" where
  "fetch_init P env s =
     try_catch (fetch_try P env) (fetch_catch env) (s\<lparr>baseFetch := GlobalThisFetch\<rparr>)"

section \<open>The exported fetch\<close>

text \<open>
  What a call of the exported function amounts to: one call of a function with
  arguments. The closure of a dispatcher transport passes
  \<open>{...init, dispatcher: configuredDispatcher}\<close>, reading the module variable at the
  time of the call.
\<close>

datatype ('m, 'i, 'o) call =
    MockCall 'm 'i 'o
  | GlobalThisFetchCall 'i 'o
  | UndiciFetchCall 'i 'o
  | UndiciFetchDispatcherCall 'i 'o "dispatcher option"

datatype 'm callee = Mock 'm | Base fetch_fn

text \<open>\<open>mockFetch || baseFetch\<close>: a function is always truthy.\<close>

definition callee_of :: "'m net \<Rightarrow> 'm callee" where
  "callee_of s = (case mockFetch s of Some m \<Rightarrow> Mock m | None \<Rightarrow> Base (baseFetch s))"

fun apply_callee :: "'m net \<Rightarrow> 'm callee \<Rightarrow> 'i \<Rightarrow> 'o \<Rightarrow> ('m, 'i, 'o) call" where
  "apply_callee s (Mock m) input init = MockCall m input init"
| "apply_callee s (Base GlobalThisFetch) input init = GlobalThisFetchCall input init"
| "apply_callee s (Base UndiciFetch) input init = UndiciFetchCall input init"
| "apply_callee s (Base DispatcherFetch) input init =
     UndiciFetchDispatcherCall input init (configuredDispatcher s)"

definition fetch :: "'m net \<Rightarrow> 'i \<Rightarrow> 'o \<Rightarrow> ('m, 'i, 'o) call" where
  "fetch s input init = apply_callee s (callee_of s) input init"

section \<open>mockFetchForTesting\<close>

text \<open>
  A promise is either one the callback made, known by a number, or
  \<open>p.finally(() => { mockFetch = saved })\<close>, which carries the value its handler
  restores. A callback returns a plain value or a promise.
\<close>

datatype 'm promise = Promise nat | Finally "'m promise" "'m option"

datatype ('m, 'v) js_value = Plain 'v | PromiseValue "'m promise"

datatype 'v settlement = Fulfilled 'v | Rejected 'v

text \<open>
  \<open>settle q out s\<close>: the promise at the root of \<open>q\<close> settles with \<open>out\<close> in state
  \<open>s\<close>. The handlers along the chain run from the root outwards; each \<open>finally\<close>
  handler here returns \<open>undefined\<close>, so the promise it made settles as its source did.
  The result is the settlement of \<open>q\<close> and the state after its handlers.
\<close>

fun settle :: "'m promise \<Rightarrow> 'v settlement \<Rightarrow> 'm net \<Rightarrow> 'v settlement \<times> 'm net" where
  "settle (Promise n) out s = (out, s)"
| "settle (Finally p saved) out s =
     (case settle p out s of (out', s') \<Rightarrow> (out', set_mockFetch saved s'))"

text \<open>
  The \<open>try\<close> block gives the completion and the flag \<open>willResetSync\<close>; the
  \<open>finally\<close> block restores when the flag is still set.
\<close>

definition mockFetchForTesting ::
  "'m \<Rightarrow> ('e, ('m, 'v) js_value, 'm net) js \<Rightarrow> ('e, ('m, 'v) js_value, 'm net) js" where
  "mockFetchForTesting theFetch callback s =
     (let originalMockFetch = mockFetch s;
          s1 = set_mockFetch (Some theFetch) s;
          (completion, willResetSync, s2) =
            (case callback s1 of
               (Inl e, s') \<Rightarrow> (Inl e, True, s')
             | (Inr (PromiseValue result), s') \<Rightarrow>
                 (Inr (PromiseValue (Finally result originalMockFetch)), False, s')
             | (Inr (Plain result), s') \<Rightarrow> (Inr (Plain result), True, s'))
      in (completion, if willResetSync then set_mockFetch originalMockFetch s2 else s2))"

section \<open>getAxiosSettings\<close>

text \<open>
  The returned object: \<open>{}\<close>, or \<open>{ adapter: "fetch", fetch }\<close> where \<open>fetch\<close> is the
  exported function of this module.
\<close>

datatype exported = ExportedFetch

datatype axios_settings = AxiosSettings "string option" "exported option"

definition empty_settings :: axios_settings where
  "empty_settings = AxiosSettings None None"

definition fetch_adapter_settings :: axios_settings where
  "fetch_adapter_settings = AxiosSettings (Some ''fetch'') (Some ExportedFetch)"

text \<open>
  The inner \<open>try\<close>/\<open>catch\<close> around the URL: it gives the flags
  \<open>(needsFetchAdapter, isSocksProxy)\<close>.
\<close>

definition axios_parse_try :: "platform \<Rightarrow> string \<Rightarrow> (error, bool \<times> bool, 'm net) js" where
  "axios_parse_try P proxy s =
     (case newURL P proxy of
        Inl e \<Rightarrow> (Inl e, s)
      | Inr proxyUrl \<Rightarrow>
          (let protocol = str_replace '':'' [] (url.protocol proxyUrl) in
           if protocol = ''socks'' \<or> protocol = ''socks4'' \<or> protocol = ''socks5'' then
             (Inr (True, True),
              console_log (''[net] Axios using SOCKS proxy via fetch adapter: '' @ protocol
                           @ ''://'' @ host proxyUrl) s)
           else (Inr (False, False), s)))"

definition axios_parse_catch :: "error \<Rightarrow> (error, bool \<times> bool, 'm net) js" where
  "axios_parse_catch e s =
     (Inr (False, False), console_warn ''[net] Failed to parse proxy URL:'' (Some e) s)"

definition axios_try :: "platform \<Rightarrow> env \<Rightarrow> (error, axios_settings, 'm net) js" where
  "axios_try P env s =
     (case (case truthy_string (resolveProxy env) of
              Some proxy \<Rightarrow> try_catch (axios_parse_try P proxy) axios_parse_catch s
            | None \<Rightarrow> (Inr (False, False), s)) of
        (Inl e, s1) \<Rightarrow> (Inl e, s1)
      | (Inr (needsFetchAdapter, isSocksProxy), s1) \<Rightarrow>
          (let (needsFetchAdapter', s2) =
                 (if is_standalone env then
                    (True, console_log ''[net] Axios using fetch adapter in standalone mode'' s1)
                  else (needsFetchAdapter, s1))
           in if needsFetchAdapter' then (Inr fetch_adapter_settings, s2)
              else (Inr empty_settings,
                    console_log ''[net] Axios using default http adapter (VSCode proxy support)'' s2)))"

definition axios_catch :: "error \<Rightarrow> (error, axios_settings, 'm net) js" where
  "axios_catch e s =
     (Inr empty_settings,
      console_warn ''Failed to configure axios settings, using default:'' (Some e) s)"

definition getAxiosSettings :: "platform \<Rightarrow> env \<Rightarrow> (error, axios_settings, 'm net) js" where
  "getAxiosSettings P env = try_catch (axios_try P env) axios_catch"

section \<open>The decision table of the specification\<close>

text \<open>
  The table of the specification, written from its words with the module's names for
  the transports: the scheme of the configured proxy (\<open>None\<close> when no proxy is
  configured), the deployment mode and the proxy URI give the base transport and the
  dispatcher it uses.
\<close>

definition decision_table :: "string option \<Rightarrow> bool \<Rightarrow> string \<Rightarrow> fetch_fn \<times> dispatcher option" where
  "decision_table scheme standalone uri =
     (case scheme of
        None \<Rightarrow> if standalone then (UndiciFetch, None) else (GlobalThisFetch, None)
      | Some p \<Rightarrow>
          if p = ''socks'' \<or> p = ''socks4'' \<or> p = ''socks5'' then
            (DispatcherFetch, Some (ProxyAgent uri))
          else if p = ''http'' \<or> p = ''https'' then
            (if standalone then (DispatcherFetch, Some EnvHttpProxyAgent)
             else (GlobalThisFetch, None))
          else (GlobalThisFetch, None))"

text \<open>The transport a state holds: the base function and the configured dispatcher.\<close>

definition transport :: "'m net \<Rightarrow> fetch_fn \<times> dispatcher option" where
  "transport s = (baseFetch s, configuredDispatcher s)"

text \<open>
  A transport other than the host's, as the claim about \<open>getAxiosSettings\<close> words
  it: a \<open>ProxyAgent\<close> behind the dispatcher transport in any mode, or any transport
  of standalone mode.
\<close>

definition non_host_backed :: "env \<Rightarrow> 'm net \<Rightarrow> bool" where
  "non_host_backed env s =
     ((baseFetch s = DispatcherFetch
        \<and> (case configuredDispatcher s of
              Some (ProxyAgent uri) \<Rightarrow> True
            | Some EnvHttpProxyAgent \<Rightarrow> False
            | None \<Rightarrow> False))
      \<or> is_standalone env)"

text \<open>
  The specification's order of the proxy variables: the first value that is a
  non-empty string.
\<close>

fun first_non_empty :: "string option list \<Rightarrow> string option" where
  "first_non_empty [] = None"
| "first_non_empty (None # vs) = first_non_empty vs"
| "first_non_empty (Some v # vs) = (if v = [] then first_non_empty vs else Some v)"

text \<open>An environment with the four proxy variables unset.\<close>

definition without_proxy :: "env \<Rightarrow> env" where
  "without_proxy env =
     env(''https_proxy'' := None, ''HTTPS_PROXY'' := None,
         ''http_proxy'' := None, ''HTTP_PROXY'' := None)"

section \<open>A platform for the examples\<close>

text \<open>
  A URL parser for the examples: the scheme states of the URL standard (a scheme is a
  letter followed by letters, digits, \<open>+\<close>, \<open>-\<close> and \<open>.\<close>, up to a colon, and is
  lower-cased; a string with no scheme is not a URL when there is no base), and the
  host with its port after \<open>//\<close>, without user information and without the default
  port of a special scheme, whose host is lower-cased. Host validation,
  percent-encoding and the stripping of white space are left out; no theorem about every platform depends on this parser.
\<close>

definition ascii_lower_alpha :: string where
  "ascii_lower_alpha = ''abcdefghijklmnopqrstuvwxyz''"

definition ascii_upper_alpha :: string where
  "ascii_upper_alpha = ''ABCDEFGHIJKLMNOPQRSTUVWXYZ''"

definition ascii_digit :: string where
  "ascii_digit = ''0123456789''"

definition is_ascii_alpha :: "char \<Rightarrow> bool" where
  "is_ascii_alpha c = (c \<in> set ascii_lower_alpha \<or> c \<in> set ascii_upper_alpha)"

definition ascii_lowercase :: "char \<Rightarrow> char" where
  "ascii_lowercase c =
     (case map_of (zip ascii_upper_alpha ascii_lower_alpha) c of Some l \<Rightarrow> l | None \<Rightarrow> c)"

definition is_scheme_char :: "char \<Rightarrow> bool" where
  "is_scheme_char c = (is_ascii_alpha c \<or> c \<in> set ascii_digit \<or> c \<in> set ''+-.'')"

fun scheme_state :: "string \<Rightarrow> string \<Rightarrow> (string \<times> string) option" where
  "scheme_state buffer [] = None"
| "scheme_state buffer (c # cs) =
     (if is_scheme_char c then scheme_state (buffer @ [ascii_lowercase c]) cs
      else if c = CHR '':'' then Some (buffer, cs)
      else None)"

definition scheme_start_state :: "string \<Rightarrow> (string \<times> string) option" where
  "scheme_start_state s =
     (case s of
        [] \<Rightarrow> None
      | c # cs \<Rightarrow> if is_ascii_alpha c then scheme_state [ascii_lowercase c] cs else None)"

definition special_default_port :: "string \<Rightarrow> string option" where
  "special_default_port =
     map_of [(''ftp'', ''21''), (''http'', ''80''), (''https'', ''443''),
             (''ws'', ''80''), (''wss'', ''443'')]"

definition authority_of :: "string \<Rightarrow> string" where
  "authority_of rest = takeWhile (\<lambda>c. c \<notin> set ''/?#'') rest"

definition drop_userinfo :: "string \<Rightarrow> string" where
  "drop_userinfo a =
     (if CHR ''@'' \<in> set a then rev (takeWhile (\<lambda>c. c \<noteq> CHR ''@'') (rev a)) else a)"

definition split_port :: "string \<Rightarrow> string \<times> string" where
  "split_port hp =
     (let p = rev (takeWhile (\<lambda>c. c \<in> set ascii_digit) (rev hp));
          h = take (length hp - length p) hp
      in if h \<noteq> [] \<and> last h = CHR '':'' then (butlast h, p) else (hp, []))"

definition example_URL :: "string \<Rightarrow> error + url" where
  "example_URL s =
     (case scheme_start_state s of
        None \<Rightarrow> Inl (TypeError ''Invalid URL'')
      | Some (scheme, rest) \<Rightarrow>
          (let special = (special_default_port scheme \<noteq> None) in
           if special \<or> prefix ''//'' rest then
             (let (h, port) =
                    split_port (drop_userinfo (authority_of (dropWhile (\<lambda>c. c = CHR ''/'') rest)))
              in if special \<and> h = [] then Inl (TypeError ''Invalid URL'')
                 else Inr \<lparr>protocol = scheme @ '':'',
                           host = (let h' = (if special then map ascii_lowercase h else h)
                                   in if port = [] \<or> special_default_port scheme = Some port then h'
                                      else h' @ '':'' @ port)\<rparr>)
           else Inr \<lparr>protocol = scheme @ '':'', host = []\<rparr>))"

text \<open>
  The \<open>ProxyAgent\<close> constructor of undici 7 (\<open>lib/dispatcher/proxy-agent.js\<close>): it
  parses the URI with \<open>new URL\<close> and hands the URL to a \<open>Pool\<close>, whose
  \<open>parseOrigin\<close> (\<open>lib/core/util.js\<close>) throws an \<open>InvalidArgumentError\<close> unless the
  URL starts with \<open>http:\<close> or \<open>https:\<close>, and also when the URL has a path, a query
  or a fragment. Here a URL has one of these when anything but a single \<open>/\<close> follows
  its authority.
\<close>

definition after_authority :: "string \<Rightarrow> string" where
  "after_authority s =
     (case scheme_start_state s of
        None \<Rightarrow> []
      | Some (scheme, rest) \<Rightarrow>
          dropWhile (\<lambda>c. c \<notin> set ''/?#'') (dropWhile (\<lambda>c. c = CHR ''/'') rest))"

definition invalid_protocol :: error where
  "invalid_protocol =
     InvalidArgumentError ''Invalid URL protocol: the URL must start with http: or https:.''"

definition example_ProxyAgent :: "string \<Rightarrow> error option" where
  "example_ProxyAgent uri =
     (case example_URL uri of
        Inl e \<Rightarrow> Some e
      | Inr u \<Rightarrow>
          if protocol u = ''http:'' \<or> protocol u = ''https:'' then
            (if after_authority uri = [] \<or> after_authority uri = ''/'' then None
             else Some (InvalidArgumentError ''invalid url''))
          else Some invalid_protocol)"

text \<open>The example platform: the URL parser above and undici's \<open>ProxyAgent\<close>.\<close>

definition example_platform :: platform where
  "example_platform = \<lparr>newURL = example_URL, newProxyAgent = example_ProxyAgent\<rparr>"

text \<open>An environment given by the list of the variables that are set.\<close>

definition env_of :: "(string \<times> string) list \<Rightarrow> env" where
  "env_of vars = map_of vars"

text \<open>The environments and callbacks of the examples.\<close>

definition socks5_standalone_env :: env where
  "socks5_standalone_env =
     env_of [(''https_proxy'', ''socks5://proxy.local:1080''), (''IS_STANDALONE'', ''1'')]"

definition socks5_embedded_env :: env where
  "socks5_embedded_env = env_of [(''https_proxy'', ''socks5://proxy.local:1080'')]"

definition http_standalone_env :: env where
  "http_standalone_env =
     env_of [(''https_proxy'', ''http://proxy.local:3128''), (''IS_STANDALONE'', ''1'')]"

definition http_embedded_env :: env where
  "http_embedded_env = env_of [(''http_proxy'', ''http://proxy.local:3128'')]"

definition ftp_embedded_env :: env where
  "ftp_embedded_env = env_of [(''https_proxy'', ''ftp://proxy:21'')]"

definition malformed_standalone_env :: env where
  "malformed_standalone_env = env_of [(''https_proxy'', ''not-a-url''), (''IS_STANDALONE'', ''1'')]"

definition malformed_embedded_env :: env where
  "malformed_embedded_env = env_of [(''https_proxy'', ''not-a-url'')]"

definition standalone_env :: env where
  "standalone_env = env_of [(''IS_STANDALONE'', ''1'')]"

definition mixed_case_env :: env where
  "mixed_case_env =
     env_of [(''https_proxy'', []), (''HTTPS_PROXY'', ''socks5://a:1''),
             (''http_proxy'', ''http://b:2''), (''HTTP_PROXY'', ''http://c:3'')]"

definition no_proxy_env :: env where
  "no_proxy_env =
     env_of [(''https_proxy'', ''socks5://proxy.local:1080''), (''IS_STANDALONE'', ''1''),
             (''no_proxy'', ''proxy.local''), (''NO_PROXY'', ''*'')]"

definition sync_callback :: "(string, (nat, (nat, string, unit) call) js_value, nat net) js" where
  "sync_callback s = (Inr (Plain (fetch s ''https://api.example.com'' ())), s)"

definition throwing_callback :: "(string, (nat, (nat, string, unit) call) js_value, nat net) js" where
  "throwing_callback s = (Inl ''boom'', s)"

definition async_callback :: "(string, (nat, (nat, string, unit) call) js_value, nat net) js" where
  "async_callback s = (Inr (PromiseValue (Promise 0)), s)"

section \<open>Auxiliary facts\<close>

lemmas example_eval =
  example_platform_def example_URL_def scheme_start_state_def is_ascii_alpha_def
  is_scheme_char_def ascii_lowercase_def ascii_lower_alpha_def ascii_upper_alpha_def
  ascii_digit_def special_default_port_def authority_of_def drop_userinfo_def split_port_def
  env_of_def resolveProxy_def js_or_def truthy_string_def is_standalone_def
  example_ProxyAgent_def after_authority_def newEnvHttpProxyAgent_def nullish_def

lemmas init_defs =
  fetch_init_def fetch_try_def fetch_catch_def try_catch_def console_log_def console_warn_def
  transport_def module_load_def

lemmas axios_defs =
  getAxiosSettings_def axios_try_def axios_catch_def axios_parse_try_def axios_parse_catch_def
  try_catch_def console_log_def console_warn_def

lemma is_standalone_without_proxy: "is_standalone (without_proxy env) = is_standalone env"
  by (simp add: is_standalone_def without_proxy_def)

lemma resolveProxy_without_proxy: "truthy_string (resolveProxy (without_proxy env)) = None"
  by (simp add: resolveProxy_def without_proxy_def js_or_def truthy_string_def)

lemma example_URL_ftp:
  "example_URL ''ftp://proxy:21'' = Inr \<lparr>protocol = ''ftp:'', host = ''proxy''\<rparr>"
  by (simp add: example_eval)

lemma example_URL_malformed: "example_URL ''not-a-url'' = Inl (TypeError ''Invalid URL'')"
  by (simp add: example_eval)

text \<open>
  The initialiser reads the environment only through the resolved proxy, the
  standalone flag and the \<open>EnvHttpProxyAgent\<close> constructor; \<open>getAxiosSettings\<close> only
  through the first two.
\<close>

lemma fetch_init_cong:
  fixes s :: "'m net"
  assumes proxy: "truthy_string (resolveProxy env1) = truthy_string (resolveProxy env2)"
    and mode: "is_standalone env1 = is_standalone env2"
    and agent: "newEnvHttpProxyAgent P env1 = newEnvHttpProxyAgent P env2"
  shows "fetch_init P env1 s = fetch_init P env2 s"
proof -
  have try_eq: "fetch_try P env1 t = fetch_try P env2 t" for t :: "'m net"
    by (simp only: fetch_try_def proxy mode agent)
  have catch_eq: "fetch_catch env1 e t = fetch_catch env2 e t" for e and t :: "'m net"
    by (simp only: fetch_catch_def mode)
  show ?thesis
    by (simp only: fetch_init_def try_catch_def try_eq catch_eq)
qed

lemma getAxiosSettings_cong:
  fixes s :: "'m net"
  assumes proxy: "truthy_string (resolveProxy env1) = truthy_string (resolveProxy env2)"
    and mode: "is_standalone env1 = is_standalone env2"
  shows "getAxiosSettings P env1 s = getAxiosSettings P env2 s"
proof -
  have "axios_try P env1 t = axios_try P env2 t" for t :: "'m net"
    by (simp only: axios_try_def proxy mode)
  then show ?thesis
    by (simp only: getAxiosSettings_def try_catch_def)
qed

lemma resolveProxy_order:
  "truthy_string (resolveProxy env) =
     first_non_empty [env ''https_proxy'', env ''HTTPS_PROXY'', env ''http_proxy'', env ''HTTP_PROXY'']"
proof -
  have "truthy_string (js_or (js_or a b) (js_or c d)) = first_non_empty [a, b, c, d]" for a b c d
    by (cases a; cases b; cases c; cases d) (auto simp: js_or_def truthy_string_def)
  then show ?thesis
    unfolding resolveProxy_def Let_def .
qed

text \<open>A promise made by \<open>finally\<close> settles as the promise at the root of its chain.\<close>

lemma settle_outcome: "fst (settle q out s) = out"
  by (induction q arbitrary: s) (simp_all add: case_prod_beta)

lemma settle_Finally:
  "settle (Finally p saved) out s = (out, set_mockFetch saved (snd (settle p out s)))"
  by (simp add: case_prod_beta settle_outcome)

text \<open>The initialiser never assigns \<open>mockFetch\<close>.\<close>

lemma fetch_init_mockFetch:
  "mockFetch (snd (fetch_init P env s)) = mockFetch s"
  by (simp add: fetch_init_def fetch_try_def fetch_catch_def try_catch_def console_log_def
      console_warn_def Let_def split: option.splits sum.splits)

section \<open>Transport selection\<close>

text \<open>
  Claim C1. The decision table asks for the dispatcher transport over a \<open>ProxyAgent\<close>
  of the proxy URI for the schemes \<open>socks\<close>, \<open>socks4\<close> and \<open>socks5\<close>, in both modes.
  The initialiser does try to build that agent, but undici's \<open>ProxyAgent\<close> throws on a
  URI that does not start with \<open>http:\<close> or \<open>https:\<close>. With
  \<open>https_proxy=socks5://proxy.local:1080\<close> the URL parses, the SOCKS line is logged,
  the constructor throws, and the \<open>catch\<close> block leaves undici's plain fetch in
  standalone mode and the host's global fetch otherwise, with no dispatcher, where
  the table has \<open>ProxyAgent\<close>.
\<close>

theorem fetch_init_socks_falls_back:
  "truthy_string (resolveProxy socks5_standalone_env) = Some ''socks5://proxy.local:1080''
   \<and> newURL example_platform ''socks5://proxy.local:1080''
       = Inr \<lparr>protocol = ''socks5:'', host = ''proxy.local:1080''\<rparr>
   \<and> newProxyAgent example_platform ''socks5://proxy.local:1080'' = Some invalid_protocol
   \<and> fst (fetch_init example_platform socks5_standalone_env (module_load :: nat net)) = Inr ()
   \<and> transport (snd (fetch_init example_platform socks5_standalone_env (module_load :: nat net)))
       = (UndiciFetch, None)
   \<and> console (snd (fetch_init example_platform socks5_standalone_env (module_load :: nat net)))
       = [ConsoleLog ''[net] Configuring SOCKS proxy: socks5://proxy.local:1080'',
          ConsoleWarn ''Failed to configure proxy agent, using default fetch:''
            (Some invalid_protocol)]
   \<and> transport (snd (fetch_init example_platform socks5_embedded_env (module_load :: nat net)))
       = (GlobalThisFetch, None)
   \<and> decision_table (Some ''socks5'') True ''socks5://proxy.local:1080''
       = (DispatcherFetch, Some (ProxyAgent ''socks5://proxy.local:1080''))
   \<and> decision_table (Some ''socks5'') False ''socks5://proxy.local:1080''
       = (DispatcherFetch, Some (ProxyAgent ''socks5://proxy.local:1080''))"
  by (simp add: socks5_standalone_env_def socks5_embedded_env_def example_eval init_defs
      decision_table_def)

text \<open>
  On every platform, a SOCKS proxy whose \<open>ProxyAgent\<close> constructor throws ends in the
  \<open>catch\<close> block: one log line, one warning with the error, and the fallback of the
  mode.
\<close>

lemma fetch_init_socks_agent_throws:
  assumes proxy: "truthy_string (resolveProxy env) = Some proxy"
    and parsed: "newURL P proxy = Inr u"
    and scheme: "scheme = str_replace '':'' [] (protocol u)"
    and socks: "scheme = ''socks'' \<or> scheme = ''socks4'' \<or> scheme = ''socks5''"
    and throws: "newProxyAgent P proxy = Some e"
  shows "fst (fetch_init P env (module_load :: 'm net)) = Inr ()
       \<and> transport (snd (fetch_init P env (module_load :: 'm net)))
           = (if is_standalone env then UndiciFetch else GlobalThisFetch, None)
       \<and> console (snd (fetch_init P env (module_load :: 'm net)))
           = [ConsoleLog (''[net] Configuring SOCKS proxy: '' @ scheme @ ''://'' @ host u),
              ConsoleWarn ''Failed to configure proxy agent, using default fetch:'' (Some e)]"
  using assms by (auto simp: init_defs)

text \<open>
  The rest of the table holds. Where the agent that a row asks for is constructed, and
  in the rows that ask for none, the initialiser selects the transport of the table.
\<close>

lemma fetch_init_table_no_proxy:
  assumes "truthy_string (resolveProxy env) = None"
  shows "fst (fetch_init P env (module_load :: 'm net)) = Inr ()
       \<and> transport (snd (fetch_init P env (module_load :: 'm net)))
           = decision_table None (is_standalone env) []"
  using assms by (simp add: init_defs decision_table_def)

lemma fetch_init_table_when_agent_constructed:
  assumes proxy: "truthy_string (resolveProxy env) = Some proxy"
    and parsed: "newURL P proxy = Inr u"
    and scheme: "scheme = str_replace '':'' [] (protocol u)"
    and socks: "scheme = ''socks'' \<or> scheme = ''socks4'' \<or> scheme = ''socks5''
        \<Longrightarrow> newProxyAgent P proxy = None"
    and http: "scheme = ''http'' \<or> scheme = ''https'' \<Longrightarrow> is_standalone env
        \<Longrightarrow> newEnvHttpProxyAgent P env = None"
  shows "fst (fetch_init P env (module_load :: 'm net)) = Inr ()
       \<and> transport (snd (fetch_init P env (module_load :: 'm net)))
           = decision_table (Some scheme) (is_standalone env) proxy"
proof -
  consider (socks) "scheme = ''socks'' \<or> scheme = ''socks4'' \<or> scheme = ''socks5''"
    | (http) "scheme = ''http'' \<or> scheme = ''https''"
    | (other) "scheme \<notin> {''http'', ''https'', ''socks'', ''socks4'', ''socks5''}"
    by auto
  then show ?thesis
  proof cases
    case socks
    with proxy parsed scheme assms(4) [OF socks] show ?thesis
      by (auto simp: init_defs decision_table_def)
  next
    case http
    show ?thesis
    proof (cases "is_standalone env")
      case True
      with proxy parsed scheme http assms(5) [OF http True] show ?thesis
        by (auto simp: init_defs decision_table_def)
    next
      case False
      with proxy parsed scheme http show ?thesis
        by (auto simp: init_defs decision_table_def)
    qed
  next
    case other
    with proxy parsed scheme show ?thesis
      by (auto simp: init_defs decision_table_def)
  qed
qed

text \<open>
  The rows for \<open>http\<close> on the example platform: the \<open>EnvHttpProxyAgent\<close> is constructed
  in standalone mode, and the host's global fetch is kept otherwise.
\<close>

lemma fetch_init_http_standalone:
  "snd (fetch_init example_platform http_standalone_env (module_load :: 'm net))
     = (console_log ''[net] Configuring HTTP/HTTPS proxy from environment variables'' module_load)
         \<lparr>configuredDispatcher := Some EnvHttpProxyAgent, baseFetch := DispatcherFetch\<rparr>"
  by (simp add: http_standalone_env_def example_eval init_defs)

lemma fetch_init_http_embedded:
  "transport (snd (fetch_init example_platform http_embedded_env (module_load :: 'm net)))
     = (GlobalThisFetch, None)"
  by (simp add: http_embedded_env_def example_eval init_defs)

text \<open>
  Claim C4. When the resolved proxy value is not a URL, the \<open>try\<close> block throws the
  parser's error before it has done anything; the initialiser catches it and completes
  normally, the console holds exactly one event, the warning with that error, and the
  transport is the one selected in the same environment with the four proxy variables
  unset.
\<close>

theorem fetch_init_malformed_proxy:
  assumes proxy: "truthy_string (resolveProxy env) = Some proxy"
    and malformed: "newURL P proxy = Inl e"
  shows "fetch_try P env (module_load :: 'm net) = (Inl e, module_load)
       \<and> fst (fetch_init P env (module_load :: 'm net)) = Inr ()
       \<and> console (snd (fetch_init P env (module_load :: 'm net)))
           = [ConsoleWarn ''Failed to configure proxy agent, using default fetch:'' (Some e)]
       \<and> transport (snd (fetch_init P env (module_load :: 'm net)))
           = transport (snd (fetch_init P (without_proxy env) (module_load :: 'm net)))"
  using proxy malformed
  by (simp add: init_defs is_standalone_without_proxy resolveProxy_without_proxy)

theorem fetch_init_malformed_proxy_witness:
  "truthy_string (resolveProxy malformed_standalone_env) = Some ''not-a-url''
   \<and> newURL example_platform ''not-a-url'' = Inl (TypeError ''Invalid URL'')
   \<and> fst (fetch_init example_platform malformed_standalone_env (module_load :: nat net)) = Inr ()
   \<and> console (snd (fetch_init example_platform malformed_standalone_env (module_load :: nat net)))
       = [ConsoleWarn ''Failed to configure proxy agent, using default fetch:''
            (Some (TypeError ''Invalid URL''))]
   \<and> transport (snd (fetch_init example_platform malformed_standalone_env (module_load :: nat net)))
       = transport (snd (fetch_init example_platform (without_proxy malformed_standalone_env)
            (module_load :: nat net)))"
proof -
  have proxy: "truthy_string (resolveProxy malformed_standalone_env) = Some ''not-a-url''"
    by (simp add: malformed_standalone_env_def example_eval)
  have malformed: "newURL example_platform ''not-a-url'' = Inl (TypeError ''Invalid URL'')"
    by (simp add: example_platform_def example_URL_malformed)
  from fetch_init_malformed_proxy [OF proxy malformed, where ?'m = nat] proxy malformed
  show ?thesis by simp
qed

text \<open>
  Claim C8. When the resolved proxy parses and its scheme is none of \<open>http\<close>,
  \<open>https\<close>, \<open>socks\<close>, \<open>socks4\<close> and \<open>socks5\<close>, the initialiser completes normally in
  both deployment modes, keeps the host's global fetch with no dispatcher, and the
  console holds exactly one event, the warning that names the scheme.
\<close>

theorem fetch_init_unsupported_scheme:
  assumes proxy: "truthy_string (resolveProxy env) = Some proxy"
    and parsed: "newURL P proxy = Inr u"
    and scheme: "scheme = str_replace '':'' [] (protocol u)"
    and unsupported: "scheme \<notin> {''http'', ''https'', ''socks'', ''socks4'', ''socks5''}"
  shows "fst (fetch_init P env (module_load :: 'm net)) = Inr ()
       \<and> transport (snd (fetch_init P env (module_load :: 'm net))) = (GlobalThisFetch, None)
       \<and> console (snd (fetch_init P env (module_load :: 'm net)))
           = [ConsoleWarn (''[net] Unsupported proxy protocol: '' @ scheme @ '', using default fetch'')
                None]"
  using assms by (simp add: init_defs)

theorem fetch_init_unsupported_scheme_witness:
  "truthy_string (resolveProxy ftp_embedded_env) = Some ''ftp://proxy:21''
   \<and> newURL example_platform ''ftp://proxy:21'' = Inr \<lparr>protocol = ''ftp:'', host = ''proxy''\<rparr>
   \<and> ''ftp'' = str_replace '':'' [] ''ftp:''
   \<and> ''ftp'' \<notin> {''http'', ''https'', ''socks'', ''socks4'', ''socks5''}
   \<and> fst (fetch_init example_platform ftp_embedded_env (module_load :: nat net)) = Inr ()
   \<and> transport (snd (fetch_init example_platform ftp_embedded_env (module_load :: nat net)))
       = (GlobalThisFetch, None)
   \<and> console (snd (fetch_init example_platform ftp_embedded_env (module_load :: nat net)))
       = [ConsoleWarn ''[net] Unsupported proxy protocol: ftp, using default fetch'' None]"
proof -
  have proxy: "truthy_string (resolveProxy ftp_embedded_env) = Some ''ftp://proxy:21''"
    by (simp add: ftp_embedded_env_def example_eval)
  have parsed: "newURL example_platform ''ftp://proxy:21''
      = Inr \<lparr>protocol = ''ftp:'', host = ''proxy''\<rparr>"
    by (simp add: example_platform_def example_URL_ftp)
  have scheme: "''ftp'' = str_replace '':'' [] (protocol \<lparr>protocol = ''ftp:'', host = ''proxy''\<rparr>)"
    by simp
  have unsupported: "''ftp'' \<notin> {''http'', ''https'', ''socks'', ''socks4'', ''socks5''}"
    by simp
  from fetch_init_unsupported_scheme [OF proxy parsed scheme unsupported, where ?'m = nat]
    proxy parsed unsupported
  show ?thesis by simp
qed

text \<open>
  Claim C9, as amended. With no proxy configured in standalone mode the initialiser
  completes normally and only replaces the base transport by undici's plain fetch:
  no dispatcher is constructed (\<open>configuredDispatcher\<close> stays undefined), nothing is
  logged, and a call of the exported fetch is a call of undici's fetch with the
  caller's arguments, not of the host's global fetch.
\<close>

theorem fetch_init_standalone_no_proxy:
  assumes none: "truthy_string (resolveProxy env) = None"
    and standalone: "is_standalone env"
  shows "fetch_init P env (module_load :: 'm net)
           = (Inr (), module_load\<lparr>baseFetch := UndiciFetch\<rparr>)
       \<and> configuredDispatcher (snd (fetch_init P env (module_load :: 'm net))) = None
       \<and> fetch (snd (fetch_init P env (module_load :: 'm net))) input init
           = UndiciFetchCall input init"
  using assms by (simp add: init_defs fetch_def callee_of_def)

theorem fetch_init_standalone_no_proxy_witness:
  "truthy_string (resolveProxy standalone_env) = None
   \<and> is_standalone standalone_env
   \<and> fetch_init example_platform standalone_env (module_load :: nat net)
       = (Inr (), module_load\<lparr>baseFetch := UndiciFetch\<rparr>)
   \<and> fetch (snd (fetch_init example_platform standalone_env (module_load :: nat net)))
         ''https://api.example.com'' ()
       = UndiciFetchCall ''https://api.example.com'' ()"
proof -
  have none: "truthy_string (resolveProxy standalone_env) = None"
    by (simp add: standalone_env_def example_eval)
  have standalone: "is_standalone standalone_env"
    by (simp add: standalone_env_def example_eval)
  from fetch_init_standalone_no_proxy [OF none standalone, where ?'m = nat
      and P = example_platform and input = "''https://api.example.com''" and init = "()"]
    none standalone
  show ?thesis by blast
qed

text \<open>
  The claim C9 as it was stated asks for a dispatcher without proxy configuration to be
  constructed. In standalone mode without proxy variables, no dispatcher exists after
  the initialisation.
\<close>

theorem fetch_init_standalone_no_proxy_counterexample:
  "truthy_string (resolveProxy standalone_env) = None
   \<and> is_standalone standalone_env
   \<and> configuredDispatcher
       (snd (fetch_init example_platform standalone_env (module_load :: nat net))) = None"
  by (simp add: standalone_env_def example_eval init_defs)


section \<open>The proxy variables\<close>

text \<open>
  Claim C6. The proxy used for the selection is the first non-empty value in the order
  \<open>https_proxy\<close>, \<open>HTTPS_PROXY\<close>, \<open>http_proxy\<close>, \<open>HTTP_PROXY\<close>. With none, the
  \<open>try\<close> block takes the branch without proxy. Otherwise that value is the string
  handed to the URL parser, whose error is the one thrown; its scheme chooses the
  branch; it is the URI handed to the \<open>ProxyAgent\<close> constructor and kept in the
  dispatcher; its scheme and host are the ones logged. A non-empty variable of the
  HTTPS pair wins over the HTTP pair, and in each pair the lower-case variable wins
  over the upper-case one.
\<close>

theorem resolveProxy_first_non_empty:
  fixes s :: "'m net"
  shows
    "truthy_string (resolveProxy env)
       = first_non_empty [env ''https_proxy'', env ''HTTPS_PROXY'', env ''http_proxy'', env ''HTTP_PROXY'']
   \<and> (first_non_empty [env ''https_proxy'', env ''HTTPS_PROXY'', env ''http_proxy'', env ''HTTP_PROXY'']
         = None \<longrightarrow>
        fetch_try P env s
          = (Inr (), if is_standalone env then s\<lparr>baseFetch := UndiciFetch\<rparr> else s))
   \<and> (first_non_empty [env ''https_proxy'', env ''HTTPS_PROXY'', env ''http_proxy'', env ''HTTP_PROXY'']
         = Some proxy \<and> newURL P proxy = Inl e \<longrightarrow>
        fetch_try P env s = (Inl e, s))
   \<and> (first_non_empty [env ''https_proxy'', env ''HTTPS_PROXY'', env ''http_proxy'', env ''HTTP_PROXY'']
         = Some proxy \<and> newURL P proxy = Inr u \<and> scheme = str_replace '':'' [] (protocol u)
       \<and> (scheme = ''socks'' \<or> scheme = ''socks4'' \<or> scheme = ''socks5'') \<longrightarrow>
        fetch_try P env s
          = (case newProxyAgent P proxy of
               Some e \<Rightarrow>
                 (Inl e,
                  console_log (''[net] Configuring SOCKS proxy: '' @ scheme @ ''://'' @ host u) s)
             | None \<Rightarrow>
                 (Inr (),
                  (console_log (''[net] Configuring SOCKS proxy: '' @ scheme @ ''://'' @ host u) s)
                    \<lparr>configuredDispatcher := Some (ProxyAgent proxy),
                     baseFetch := DispatcherFetch\<rparr>)))
   \<and> (first_non_empty [env ''https_proxy'', env ''HTTPS_PROXY'', env ''http_proxy'', env ''HTTP_PROXY'']
         = Some proxy \<and> newURL P proxy = Inr u \<and> scheme = str_replace '':'' [] (protocol u)
       \<and> (scheme = ''http'' \<or> scheme = ''https'') \<longrightarrow>
        fetch_try P env s
          = (if is_standalone env then
               (case newEnvHttpProxyAgent P env of
                  Some e \<Rightarrow>
                    (Inl e,
                     console_log
                       ''[net] Configuring HTTP/HTTPS proxy from environment variables'' s)
                | None \<Rightarrow>
                    (Inr (),
                     (console_log
                        ''[net] Configuring HTTP/HTTPS proxy from environment variables'' s)
                       \<lparr>configuredDispatcher := Some EnvHttpProxyAgent,
                        baseFetch := DispatcherFetch\<rparr>))
             else (Inr (), s)))
   \<and> (first_non_empty [env ''https_proxy'', env ''HTTPS_PROXY'', env ''http_proxy'', env ''HTTP_PROXY'']
         = Some proxy \<and> newURL P proxy = Inr u \<and> scheme = str_replace '':'' [] (protocol u)
       \<and> scheme \<notin> {''http'', ''https'', ''socks'', ''socks4'', ''socks5''} \<longrightarrow>
        fetch_try P env s
          = (Inr (),
             console_warn
               (''[net] Unsupported proxy protocol: '' @ scheme @ '', using default fetch'') None s))
   \<and> (truthy (env ''https_proxy'') \<longrightarrow> resolveProxy env = env ''https_proxy'')
   \<and> (\<not> truthy (env ''https_proxy'') \<and> truthy (env ''HTTPS_PROXY'') \<longrightarrow>
        resolveProxy env = env ''HTTPS_PROXY'')
   \<and> (\<not> truthy (env ''https_proxy'') \<and> \<not> truthy (env ''HTTPS_PROXY'')
        \<and> truthy (env ''http_proxy'') \<longrightarrow> resolveProxy env = env ''http_proxy'')
   \<and> (\<not> truthy (env ''https_proxy'') \<and> \<not> truthy (env ''HTTPS_PROXY'')
        \<and> \<not> truthy (env ''http_proxy'') \<longrightarrow> resolveProxy env = env ''HTTP_PROXY'')"
proof -
  let ?first = "first_non_empty
    [env ''https_proxy'', env ''HTTPS_PROXY'', env ''http_proxy'', env ''HTTP_PROXY'']"
  have order: "truthy_string (resolveProxy env) = ?first"
    by (rule resolveProxy_order)
  have none: "?first = None \<longrightarrow>
      fetch_try P env s = (Inr (), if is_standalone env then s\<lparr>baseFetch := UndiciFetch\<rparr> else s)"
    by (simp add: fetch_try_def order)
  have malformed: "?first = Some proxy \<and> newURL P proxy = Inl e \<longrightarrow> fetch_try P env s = (Inl e, s)"
    by (simp add: fetch_try_def order)
  have socks: "?first = Some proxy \<and> newURL P proxy = Inr u
       \<and> scheme = str_replace '':'' [] (protocol u)
       \<and> (scheme = ''socks'' \<or> scheme = ''socks4'' \<or> scheme = ''socks5'') \<longrightarrow>
        fetch_try P env s
          = (case newProxyAgent P proxy of
               Some e \<Rightarrow>
                 (Inl e,
                  console_log (''[net] Configuring SOCKS proxy: '' @ scheme @ ''://'' @ host u) s)
             | None \<Rightarrow>
                 (Inr (),
                  (console_log (''[net] Configuring SOCKS proxy: '' @ scheme @ ''://'' @ host u) s)
                    \<lparr>configuredDispatcher := Some (ProxyAgent proxy),
                     baseFetch := DispatcherFetch\<rparr>))"
    by (auto simp: fetch_try_def order Let_def split: option.splits)
  have http: "?first = Some proxy \<and> newURL P proxy = Inr u
       \<and> scheme = str_replace '':'' [] (protocol u)
       \<and> (scheme = ''http'' \<or> scheme = ''https'') \<longrightarrow>
        fetch_try P env s
          = (if is_standalone env then
               (case newEnvHttpProxyAgent P env of
                  Some e \<Rightarrow>
                    (Inl e,
                     console_log
                       ''[net] Configuring HTTP/HTTPS proxy from environment variables'' s)
                | None \<Rightarrow>
                    (Inr (),
                     (console_log
                        ''[net] Configuring HTTP/HTTPS proxy from environment variables'' s)
                       \<lparr>configuredDispatcher := Some EnvHttpProxyAgent,
                        baseFetch := DispatcherFetch\<rparr>))
             else (Inr (), s))"
    by (auto simp: fetch_try_def order Let_def split: option.splits)
  have other: "?first = Some proxy \<and> newURL P proxy = Inr u
       \<and> scheme = str_replace '':'' [] (protocol u)
       \<and> scheme \<notin> {''http'', ''https'', ''socks'', ''socks4'', ''socks5''} \<longrightarrow>
        fetch_try P env s
          = (Inr (),
             console_warn
               (''[net] Unsupported proxy protocol: '' @ scheme @ '', using default fetch'') None s)"
    by (auto simp: fetch_try_def order Let_def)
  have first: "truthy (env ''https_proxy'') \<longrightarrow> resolveProxy env = env ''https_proxy''"
    by (simp add: resolveProxy_def js_or_def)
  have second: "\<not> truthy (env ''https_proxy'') \<and> truthy (env ''HTTPS_PROXY'') \<longrightarrow>
        resolveProxy env = env ''HTTPS_PROXY''"
    by (simp add: resolveProxy_def js_or_def)
  have third: "\<not> truthy (env ''https_proxy'') \<and> \<not> truthy (env ''HTTPS_PROXY'')
        \<and> truthy (env ''http_proxy'') \<longrightarrow> resolveProxy env = env ''http_proxy''"
    by (simp add: resolveProxy_def js_or_def)
  have fourth: "\<not> truthy (env ''https_proxy'') \<and> \<not> truthy (env ''HTTPS_PROXY'')
        \<and> \<not> truthy (env ''http_proxy'') \<longrightarrow> resolveProxy env = env ''HTTP_PROXY''"
    by (simp add: resolveProxy_def js_or_def)
  show ?thesis
    by (intro conjI) (rule order none malformed socks http other first second third fourth)+
qed

theorem resolveProxy_first_non_empty_witness:
  "\<not> truthy (mixed_case_env ''https_proxy'')
   \<and> truthy (mixed_case_env ''HTTPS_PROXY'')
   \<and> resolveProxy mixed_case_env = Some ''socks5://a:1''
   \<and> first_non_empty [mixed_case_env ''https_proxy'', mixed_case_env ''HTTPS_PROXY'',
        mixed_case_env ''http_proxy'', mixed_case_env ''HTTP_PROXY''] = Some ''socks5://a:1''
   \<and> newURL example_platform ''socks5://a:1'' = Inr \<lparr>protocol = ''socks5:'', host = ''a:1''\<rparr>
   \<and> fetch_try example_platform mixed_case_env (module_load :: nat net)
       = (Inl invalid_protocol,
          console_log ''[net] Configuring SOCKS proxy: socks5://a:1'' module_load)"
proof -
  have lower: "\<not> truthy (mixed_case_env ''https_proxy'')"
    by (simp add: mixed_case_env_def env_of_def)
  have upper: "truthy (mixed_case_env ''HTTPS_PROXY'')"
    by (simp add: mixed_case_env_def env_of_def)
  have first: "first_non_empty [mixed_case_env ''https_proxy'', mixed_case_env ''HTTPS_PROXY'',
        mixed_case_env ''http_proxy'', mixed_case_env ''HTTP_PROXY''] = Some ''socks5://a:1''"
    by (simp add: mixed_case_env_def env_of_def)
  have parsed: "newURL example_platform ''socks5://a:1''
      = Inr \<lparr>protocol = ''socks5:'', host = ''a:1''\<rparr>"
    by (simp add: example_eval)
  have throws: "newProxyAgent example_platform ''socks5://a:1'' = Some invalid_protocol"
    by (simp add: example_eval)
  note inst = resolveProxy_first_non_empty [where env = mixed_case_env and P = example_platform
      and s = "module_load :: nat net" and proxy = "''socks5://a:1''"
      and u = "\<lparr>protocol = ''socks5:'', host = ''a:1''\<rparr>" and scheme = "''socks5''"
      and e = "TypeError ''Invalid URL''"]
  have resolved: "resolveProxy mixed_case_env = mixed_case_env ''HTTPS_PROXY''"
    using inst [THEN conjunct2, THEN conjunct2, THEN conjunct2, THEN conjunct2, THEN conjunct2,
        THEN conjunct2, THEN conjunct2, THEN conjunct1] lower upper
    by simp
  have selected: "fetch_try example_platform mixed_case_env (module_load :: nat net)
       = (Inl invalid_protocol,
          console_log ''[net] Configuring SOCKS proxy: socks5://a:1'' module_load)"
    using inst [THEN conjunct2, THEN conjunct2, THEN conjunct2, THEN conjunct1] first parsed throws
    by simp
  show ?thesis
    using lower upper resolved first parsed selected
    by (simp add: mixed_case_env_def env_of_def)
qed

text \<open>
  Claim C10. Two environments that agree on \<open>https_proxy\<close>, \<open>HTTPS_PROXY\<close>,
  \<open>http_proxy\<close>, \<open>HTTP_PROXY\<close> and \<open>IS_STANDALONE\<close> give the same initialisation
  (completion, transport, dispatcher and console) and the same result of
  \<open>getAxiosSettings\<close>: no other variable, \<open>no_proxy\<close> and \<open>NO_PROXY\<close> included, is
  read.
\<close>

theorem selection_reads_five_variables:
  fixes s :: "'m net"
  assumes "env1 ''https_proxy'' = env2 ''https_proxy''"
    and "env1 ''HTTPS_PROXY'' = env2 ''HTTPS_PROXY''"
    and "env1 ''http_proxy'' = env2 ''http_proxy''"
    and "env1 ''HTTP_PROXY'' = env2 ''HTTP_PROXY''"
    and "env1 ''IS_STANDALONE'' = env2 ''IS_STANDALONE''"
  shows "fetch_init P env1 s = fetch_init P env2 s
       \<and> getAxiosSettings P env1 s = getAxiosSettings P env2 s"
proof -
  have proxy: "truthy_string (resolveProxy env1) = truthy_string (resolveProxy env2)"
    by (simp add: resolveProxy_def assms)
  have mode: "is_standalone env1 = is_standalone env2"
    by (simp add: is_standalone_def assms)
  have agent: "newEnvHttpProxyAgent P env1 = newEnvHttpProxyAgent P env2"
    by (auto simp: newEnvHttpProxyAgent_def Let_def assms split: option.splits)
  show ?thesis
    using fetch_init_cong [OF proxy mode agent, of s] getAxiosSettings_cong [OF proxy mode, of P s]
    by simp
qed

theorem selection_reads_five_variables_witness:
  "socks5_standalone_env ''no_proxy'' \<noteq> no_proxy_env ''no_proxy''
   \<and> socks5_standalone_env ''NO_PROXY'' \<noteq> no_proxy_env ''NO_PROXY''
   \<and> fetch_init example_platform socks5_standalone_env (module_load :: nat net)
       = fetch_init example_platform no_proxy_env module_load
   \<and> getAxiosSettings example_platform socks5_standalone_env (module_load :: nat net)
       = getAxiosSettings example_platform no_proxy_env module_load"
proof -
  have differ: "socks5_standalone_env ''no_proxy'' \<noteq> no_proxy_env ''no_proxy''"
    "socks5_standalone_env ''NO_PROXY'' \<noteq> no_proxy_env ''NO_PROXY''"
    by (simp_all add: socks5_standalone_env_def no_proxy_env_def env_of_def)
  have agree: "socks5_standalone_env ''https_proxy'' = no_proxy_env ''https_proxy''"
    "socks5_standalone_env ''HTTPS_PROXY'' = no_proxy_env ''HTTPS_PROXY''"
    "socks5_standalone_env ''http_proxy'' = no_proxy_env ''http_proxy''"
    "socks5_standalone_env ''HTTP_PROXY'' = no_proxy_env ''HTTP_PROXY''"
    "socks5_standalone_env ''IS_STANDALONE'' = no_proxy_env ''IS_STANDALONE''"
    by (simp_all add: socks5_standalone_env_def no_proxy_env_def env_of_def)
  from selection_reads_five_variables [OF agree, where P = example_platform
      and s = "module_load :: nat net"] differ
  show ?thesis by simp
qed

section \<open>getAxiosSettings\<close>

text \<open>
  Claim C3. The settings route through the exported fetch exactly when that fetch is
  backed by a transport other than the host's: a \<open>ProxyAgent\<close> for SOCKS in any mode,
  or any transport of standalone mode. The code departs from it for a SOCKS proxy in
  embedded mode, here \<open>https_proxy=socks5://proxy.local:1080\<close> without
  \<open>IS_STANDALONE\<close>: the \<open>ProxyAgent\<close> constructor throws, the initialiser falls back
  to the host's global fetch, and \<open>getAxiosSettings\<close>, which looks at the scheme alone,
  returns the fetch adapter settings.
\<close>

theorem axios_settings_socks_embedded:
  "\<not> is_standalone socks5_embedded_env
   \<and> transport (snd (fetch_init example_platform socks5_embedded_env (module_load :: nat net)))
       = (GlobalThisFetch, None)
   \<and> \<not> non_host_backed socks5_embedded_env
         (snd (fetch_init example_platform socks5_embedded_env (module_load :: nat net)))
   \<and> fst (getAxiosSettings example_platform socks5_embedded_env (module_load :: nat net))
       = Inr fetch_adapter_settings"
  by (simp add: socks5_embedded_env_def example_eval init_defs axios_defs non_host_backed_def)

text \<open>
  Everywhere else the two agree, on every platform: unless the environment is one of
  embedded mode with a SOCKS proxy whose \<open>ProxyAgent\<close> constructor throws, the result
  is the fetch adapter settings when the exported fetch is backed by a transport other
  than the host's, and the empty settings when it is not.
\<close>

lemma axios_settings_agree_elsewhere:
  fixes s :: "'m net"
  assumes constructed: "\<And>proxy u. truthy_string (resolveProxy env) = Some proxy \<Longrightarrow>
        newURL P proxy = Inr u \<Longrightarrow> \<not> is_standalone env \<Longrightarrow>
        str_replace '':'' [] (protocol u) \<in> {''socks'', ''socks4'', ''socks5''} \<Longrightarrow>
        newProxyAgent P proxy = None"
  shows "fst (getAxiosSettings P env s)
       = Inr (if non_host_backed env (snd (fetch_init P env (module_load :: 'm net)))
              then fetch_adapter_settings else empty_settings)"
proof (cases "truthy_string (resolveProxy env)")
  case None
  then show ?thesis
    by (simp add: init_defs axios_defs non_host_backed_def)
next
  case (Some proxy)
  show ?thesis
  proof (cases "newURL P proxy")
    case (Inl e)
    with Some show ?thesis
      by (simp add: init_defs axios_defs non_host_backed_def)
  next
    case (Inr u)
    show ?thesis
    proof (cases "is_standalone env")
      case True
      with Some Inr show ?thesis
        by (simp add: axios_defs non_host_backed_def Let_def)
    next
      case False
      with Some Inr constructed [OF Some Inr False] show ?thesis
        by (auto simp: init_defs axios_defs non_host_backed_def Let_def)
    qed
  qed
qed

text \<open>
  Claim C7, as amended. \<open>getAxiosSettings\<close> always completes normally, with the empty
  settings or the fetch adapter settings. A proxy that is not a URL is caught by the
  inner handler, which logs a warning and goes on as without a proxy: the result is
  the fetch adapter settings in standalone mode and the empty settings otherwise. The
  outer handler returns the empty settings.
\<close>

theorem getAxiosSettings_never_throws:
  "(fst (getAxiosSettings P env s) = Inr empty_settings
      \<or> fst (getAxiosSettings P env s) = Inr fetch_adapter_settings)
   \<and> (truthy_string (resolveProxy env) = Some proxy \<and> newURL P proxy = Inl e \<longrightarrow>
        getAxiosSettings P env s =
          (if is_standalone env then
             (Inr fetch_adapter_settings,
              console_log ''[net] Axios using fetch adapter in standalone mode''
                (console_warn ''[net] Failed to parse proxy URL:'' (Some e) s))
           else
             (Inr empty_settings,
              console_log ''[net] Axios using default http adapter (VSCode proxy support)''
                (console_warn ''[net] Failed to parse proxy URL:'' (Some e) s))))
   \<and> fst (axios_catch e' s) = Inr empty_settings"
  by (auto simp: getAxiosSettings_def axios_try_def axios_catch_def axios_parse_try_def
      axios_parse_catch_def try_catch_def Let_def split: option.splits sum.splits prod.splits)

theorem getAxiosSettings_never_throws_witness:
  "truthy_string (resolveProxy malformed_embedded_env) = Some ''not-a-url''
   \<and> newURL example_platform ''not-a-url'' = Inl (TypeError ''Invalid URL'')
   \<and> \<not> is_standalone malformed_embedded_env
   \<and> fst (getAxiosSettings example_platform malformed_embedded_env (module_load :: nat net))
       = Inr empty_settings"
proof -
  have proxy: "truthy_string (resolveProxy malformed_embedded_env) = Some ''not-a-url''"
    by (simp add: malformed_embedded_env_def example_eval)
  have malformed: "newURL example_platform ''not-a-url'' = Inl (TypeError ''Invalid URL'')"
    by (simp add: example_platform_def example_URL_malformed)
  have embedded: "\<not> is_standalone malformed_embedded_env"
    by (simp add: malformed_embedded_env_def example_eval)
  from getAxiosSettings_never_throws [where P = example_platform and env = malformed_embedded_env
      and s = "module_load :: nat net" and proxy = "''not-a-url''"
      and e = "TypeError ''Invalid URL''" and e' = "TypeError ''Invalid URL''", THEN conjunct2,
      THEN conjunct1] proxy malformed embedded
  show ?thesis by simp
qed

text \<open>
  The claim C7 as it was stated asks for the empty settings whenever the proxy fails
  to parse. In standalone mode with \<open>https_proxy=not-a-url\<close> the parse fails and the
  result is the fetch adapter settings.
\<close>

theorem getAxiosSettings_malformed_counterexample:
  "truthy_string (resolveProxy malformed_standalone_env) = Some ''not-a-url''
   \<and> newURL example_platform ''not-a-url'' = Inl (TypeError ''Invalid URL'')
   \<and> fst (getAxiosSettings example_platform malformed_standalone_env (module_load :: nat net))
       = Inr fetch_adapter_settings
   \<and> fetch_adapter_settings \<noteq> empty_settings"
  by (simp add: malformed_standalone_env_def example_eval axios_defs
      fetch_adapter_settings_def empty_settings_def)

section \<open>The exported fetch and its override\<close>

text \<open>
  Claim C5. A call of the exported fetch reads the override at the time of the call.
  With an override installed it is one call of the override with the caller's
  arguments, whatever the base transport and the dispatcher are. Without one it is one
  call of the base transport with the same arguments: the host's global fetch, undici's
  fetch, or undici's fetch with the configured dispatcher added to the options. The
  initialiser leaves no override, so after the module has loaded a call goes to the
  transport it selected; once an override is installed a call goes to the override,
  whatever the callback of \<open>mockFetchForTesting\<close> does with the result; and once the
  override is removed the call is the one made before the installation.
\<close>

theorem fetch_delegates:
  fixes s s0 :: "'m net"
    and k :: "('m, 'i, 'o) call \<Rightarrow> ('e, ('m, 'v) js_value, 'm net) js"
  shows
    "(mockFetch s = Some m \<longrightarrow>
        fetch s input init = MockCall m input init
        \<and> fetch (s\<lparr>baseFetch := b, configuredDispatcher := d\<rparr>) input init = MockCall m input init)
   \<and> (mockFetch s = None \<and> baseFetch s = GlobalThisFetch \<longrightarrow>
        fetch s input init = GlobalThisFetchCall input init)
   \<and> (mockFetch s = None \<and> baseFetch s = UndiciFetch \<longrightarrow>
        fetch s input init = UndiciFetchCall input init)
   \<and> (mockFetch s = None \<and> baseFetch s = DispatcherFetch \<longrightarrow>
        fetch s input init = UndiciFetchDispatcherCall input init (configuredDispatcher s))
   \<and> mockFetch (snd (fetch_init P env (module_load :: 'm net))) = None
   \<and> (s0 = snd (fetch_init P env module_load) \<longrightarrow>
        fetch (set_mockFetch (Some m) s0) input init = MockCall m input init
        \<and> mockFetchForTesting m (\<lambda>t. k (fetch t input init) t) s0
            = mockFetchForTesting m (\<lambda>t. k (MockCall m input init) t) s0
        \<and> fetch (set_mockFetch None (set_mockFetch (Some m) s0)) input init
            = fetch s0 input init)"
proof -
  have unset: "mockFetch (snd (fetch_init P env (module_load :: 'm net))) = None"
    by (simp add: fetch_init_mockFetch module_load_def)
  have installed: "fetch (set_mockFetch (Some m) t) input init = MockCall m input init"
    for t :: "'m net"
    by (simp add: fetch_def callee_of_def set_mockFetch_def)
  have removed: "mockFetch t = None \<Longrightarrow>
      fetch (set_mockFetch None (set_mockFetch (Some m) t)) input init = fetch t input init"
    for t :: "'m net"
    by (cases "baseFetch t") (simp_all add: fetch_def callee_of_def set_mockFetch_def)
  have callback: "mockFetchForTesting m (\<lambda>t. k (fetch t input init) t) t0
      = mockFetchForTesting m (\<lambda>t. k (MockCall m input init) t) t0" for t0 :: "'m net"
    by (simp add: mockFetchForTesting_def installed)
  have override: "mockFetch s = Some m \<longrightarrow>
        fetch s input init = MockCall m input init
        \<and> fetch (s\<lparr>baseFetch := b, configuredDispatcher := d\<rparr>) input init = MockCall m input init"
    by (simp add: fetch_def callee_of_def)
  have base: "(mockFetch s = None \<and> baseFetch s = GlobalThisFetch \<longrightarrow>
        fetch s input init = GlobalThisFetchCall input init)
   \<and> (mockFetch s = None \<and> baseFetch s = UndiciFetch \<longrightarrow>
        fetch s input init = UndiciFetchCall input init)
   \<and> (mockFetch s = None \<and> baseFetch s = DispatcherFetch \<longrightarrow>
        fetch s input init = UndiciFetchDispatcherCall input init (configuredDispatcher s))"
    by (simp add: fetch_def callee_of_def)
  show ?thesis
    using unset installed removed [of "snd (fetch_init P env module_load)"] callback override base
    by simp
qed

theorem fetch_delegates_witness:
  "snd (fetch_init example_platform http_standalone_env (module_load :: nat net))
     = (console_log ''[net] Configuring HTTP/HTTPS proxy from environment variables'' module_load)
         \<lparr>configuredDispatcher := Some EnvHttpProxyAgent, baseFetch := DispatcherFetch\<rparr>
   \<and> fetch (snd (fetch_init example_platform http_standalone_env (module_load :: nat net)))
         ''https://api.example.com'' ()
     = UndiciFetchDispatcherCall ''https://api.example.com'' () (Some EnvHttpProxyAgent)
   \<and> fetch (set_mockFetch (Some 7)
         (snd (fetch_init example_platform http_standalone_env (module_load :: nat net))))
         ''https://api.example.com'' ()
     = MockCall 7 ''https://api.example.com'' ()
   \<and> fetch (set_mockFetch None (set_mockFetch (Some 7)
         (snd (fetch_init example_platform http_standalone_env (module_load :: nat net)))))
         ''https://api.example.com'' ()
     = UndiciFetchDispatcherCall ''https://api.example.com'' () (Some EnvHttpProxyAgent)"
proof -
  let ?s0 = "snd (fetch_init example_platform http_standalone_env (module_load :: nat net))"
  have loaded: "?s0
     = (console_log ''[net] Configuring HTTP/HTTPS proxy from environment variables'' module_load)
         \<lparr>configuredDispatcher := Some EnvHttpProxyAgent, baseFetch := DispatcherFetch\<rparr>"
    by (rule fetch_init_http_standalone)
  have unset: "mockFetch ?s0 = None"
    by (simp add: fetch_init_mockFetch module_load_def)
  have base: "baseFetch ?s0 = DispatcherFetch"
    and dispatcher: "configuredDispatcher ?s0 = Some EnvHttpProxyAgent"
    by (simp_all add: loaded)
  note inst = fetch_delegates [where P = example_platform and env = http_standalone_env
      and s = ?s0 and ?s0.0 = ?s0 and m = 7 and input = "''https://api.example.com''"
      and init = "()" and b = GlobalThisFetch and d = None
      and k = "\<lambda>c t. (Inr (PromiseValue (Promise 0)) :: string + (nat, unit) js_value, t)"]
  have call: "fetch ?s0 ''https://api.example.com'' ()
      = UndiciFetchDispatcherCall ''https://api.example.com'' () (Some EnvHttpProxyAgent)"
    using inst [THEN conjunct2, THEN conjunct2, THEN conjunct2, THEN conjunct1]
      unset base dispatcher
    by simp
  have during: "fetch (set_mockFetch (Some 7) ?s0) ''https://api.example.com'' ()
      = MockCall 7 ''https://api.example.com'' ()"
    and after: "fetch (set_mockFetch None (set_mockFetch (Some 7) ?s0)) ''https://api.example.com'' ()
      = fetch ?s0 ''https://api.example.com'' ()"
    using inst [THEN conjunct2, THEN conjunct2, THEN conjunct2, THEN conjunct2, THEN conjunct2,
        THEN mp, OF refl]
    by simp_all
  show ?thesis
    using loaded call during after by simp
qed

text \<open>
  Claim C2. \<open>mockFetchForTesting\<close> restores \<open>mockFetch\<close> to its value from before the
  installation, by one assignment, however the callback ends. When the callback
  returns a plain value or throws, the assignment is made before the value is returned
  or the error propagates. When it returns a promise, nothing is restored on return:
  the result is the promise made by \<open>finally\<close>, and when the callback's promise
  settles that promise settles in the same way, fulfilled or rejected, after the one
  restoring assignment. An installation inside another one restores the replacement
  of the enclosing installation, which then restores the original value.
\<close>

theorem mockFetchForTesting_restores:
  fixes s :: "'m net" and callback :: "('e, ('m, 'v) js_value, 'm net) js"
  shows
    "(callback (set_mockFetch (Some theFetch) s) = (Inr (Plain v), s2) \<longrightarrow>
        mockFetchForTesting theFetch callback s = (Inr (Plain v), set_mockFetch (mockFetch s) s2)
        \<and> mockFetch (snd (mockFetchForTesting theFetch callback s)) = mockFetch s
        \<and> mockFetchWrites (snd (mockFetchForTesting theFetch callback s))
            = mockFetchWrites s2 @ [mockFetch s])
   \<and> (callback (set_mockFetch (Some theFetch) s) = (Inl e, s2) \<longrightarrow>
        mockFetchForTesting theFetch callback s = (Inl e, set_mockFetch (mockFetch s) s2)
        \<and> mockFetch (snd (mockFetchForTesting theFetch callback s)) = mockFetch s
        \<and> mockFetchWrites (snd (mockFetchForTesting theFetch callback s))
            = mockFetchWrites s2 @ [mockFetch s])
   \<and> (callback (set_mockFetch (Some theFetch) s) = (Inr (PromiseValue p), s2) \<longrightarrow>
        mockFetchForTesting theFetch callback s
          = (Inr (PromiseValue (Finally p (mockFetch s))), s2)
        \<and> (\<forall>out t. settle (Finally p (mockFetch s)) out t
              = (out, set_mockFetch (mockFetch s) (snd (settle p out (t :: 'm net)))))
        \<and> (\<forall>n out t. p = Promise n \<longrightarrow>
              mockFetchWrites (snd (settle (Finally p (mockFetch s)) out t))
                = mockFetchWrites (t :: 'm net) @ [mockFetch s]))
   \<and> (inner (set_mockFetch (Some innerFetch) (set_mockFetch (Some theFetch) s))
          = (Inr (Plain v), s2) \<longrightarrow>
        mockFetchForTesting theFetch (mockFetchForTesting innerFetch inner) s
          = (Inr (Plain v), set_mockFetch (mockFetch s) (set_mockFetch (Some theFetch) s2)))"
  by (simp add: mockFetchForTesting_def settle_Finally Let_def set_mockFetch_def
      del: settle.simps(2))

theorem mockFetchForTesting_restores_witness:
  "mockFetchForTesting 7 sync_callback module_load
     = (Inr (Plain (MockCall 7 ''https://api.example.com'' ())),
        set_mockFetch None (set_mockFetch (Some 7) module_load))
   \<and> mockFetchForTesting 7 throwing_callback module_load
     = (Inl ''boom'', set_mockFetch None (set_mockFetch (Some 7) module_load))
   \<and> mockFetchForTesting 7 async_callback module_load
     = (Inr (PromiseValue (Finally (Promise 0) None)), set_mockFetch (Some 7) module_load)
   \<and> settle (Finally (Promise 0) None) (Rejected ''late'')
         (set_mockFetch (Some 7) (module_load :: nat net))
     = (Rejected ''late'', set_mockFetch None (set_mockFetch (Some 7) module_load))
   \<and> mockFetchForTesting 7 (mockFetchForTesting 8 sync_callback) module_load
     = (Inr (Plain (MockCall 8 ''https://api.example.com'' ())),
        set_mockFetch None
          (set_mockFetch (Some 7) (set_mockFetch (Some 8) (set_mockFetch (Some 7) module_load))))"
proof -
  let ?s1 = "set_mockFetch (Some 7) (module_load :: nat net)"
  let ?s2 = "set_mockFetch (Some 8) ?s1"
  have orig: "mockFetch (module_load :: nat net) = None"
    by (simp add: module_load_def)
  have sync: "sync_callback ?s1 = (Inr (Plain (MockCall 7 ''https://api.example.com'' ())), ?s1)"
    by (simp add: sync_callback_def fetch_def callee_of_def set_mockFetch_def)
  have thrown: "throwing_callback ?s1 = (Inl ''boom'', ?s1)"
    by (simp add: throwing_callback_def)
  have async: "async_callback ?s1 = (Inr (PromiseValue (Promise 0)), ?s1)"
    by (simp add: async_callback_def)
  have nested: "sync_callback ?s2 = (Inr (Plain (MockCall 8 ''https://api.example.com'' ())), ?s2)"
    by (simp add: sync_callback_def fetch_def callee_of_def set_mockFetch_def)
  have a: "mockFetchForTesting 7 sync_callback module_load
     = (Inr (Plain (MockCall 7 ''https://api.example.com'' ())), set_mockFetch None ?s1)"
    using mockFetchForTesting_restores [where theFetch = 7 and s = "module_load :: nat net"
        and callback = sync_callback and v = "MockCall 7 ''https://api.example.com'' ()"
        and ?s2.0 = ?s1, THEN conjunct1] sync orig
    by simp
  have b: "mockFetchForTesting 7 throwing_callback module_load
     = (Inl ''boom'', set_mockFetch None ?s1)"
    using mockFetchForTesting_restores [where theFetch = 7 and s = "module_load :: nat net"
        and callback = throwing_callback and e = "''boom''" and ?s2.0 = ?s1,
        THEN conjunct2, THEN conjunct1] thrown orig
    by simp
  have c: "mockFetchForTesting 7 async_callback module_load
       = (Inr (PromiseValue (Finally (Promise 0) None)), ?s1)
     \<and> settle (Finally (Promise 0) None) (Rejected ''late'') ?s1
       = (Rejected ''late'', set_mockFetch None ?s1)"
    using mockFetchForTesting_restores [where theFetch = 7 and s = "module_load :: nat net"
        and callback = async_callback and p = "Promise 0" and ?s2.0 = ?s1,
        THEN conjunct2, THEN conjunct2, THEN conjunct1] async orig
    by simp
  have d: "mockFetchForTesting 7 (mockFetchForTesting 8 sync_callback) module_load
     = (Inr (Plain (MockCall 8 ''https://api.example.com'' ())),
        set_mockFetch None (set_mockFetch (Some 7) ?s2))"
    using mockFetchForTesting_restores [where theFetch = 7 and s = "module_load :: nat net"
        and inner = sync_callback and innerFetch = 8
        and v = "MockCall 8 ''https://api.example.com'' ()" and ?s2.0 = ?s2,
        THEN conjunct2, THEN conjunct2, THEN conjunct2] nested orig
    by simp
  from a b c d show ?thesis by simp
qed

end
